theory Spec2Isabelle
  imports Main "HOL-Library.Word"
begin

section \<open>The translation unit \<^verbatim>\<open>src/GhosttyBridge/ImGuiShims.c\<close>\<close>

text \<open>
  The file holds two prototypes (lines 11 and 12) and two function definitions
  (lines 14 to 20), all inside one \<^verbatim>\<open>extern "C"\<close> block that is only opened under a
  C++ compiler (lines 6 to 8 and 22 to 24). Each definition has a body of one statement:
  a call of one of the two prototypes with the parameter \<^verbatim>\<open>self\<close>.
\<close>

subsection \<open>Declarations\<close>

text \<open>The C types that occur in the file: \<^verbatim>\<open>void\<close> and \<^verbatim>\<open>void*\<close>.\<close>

datatype ctype = Void | Pointer ctype

text \<open>
  One top-level declaration: its identifier as written in the source, the parameter types,
  the return type, and whether the file gives it a body. A function with a body is a symbol
  the object file exports; a prototype without one has to be supplied by the linker.
\<close>

record decl =
  sym_name :: string
  sym_params :: "ctype list"
  sym_returns :: ctype
  sym_body :: bool

definition translation_unit :: "decl list" where
  "translation_unit =
    [\<lparr>sym_name = ''_ZN12ImFontConfigC1Ev'', sym_params = [Pointer Void],
       sym_returns = Void, sym_body = False\<rparr>,
     \<lparr>sym_name = ''_ZN10ImGuiStyleC1Ev'', sym_params = [Pointer Void],
       sym_returns = Void, sym_body = False\<rparr>,
     \<lparr>sym_name = ''ImFontConfig_ImFontConfig'', sym_params = [Pointer Void],
       sym_returns = Void, sym_body = True\<rparr>,
     \<lparr>sym_name = ''ImGuiStyle_ImGuiStyle'', sym_params = [Pointer Void],
       sym_returns = Void, sym_body = True\<rparr>]"

definition exported :: "decl list" where
  "exported = filter sym_body translation_unit"

definition imported :: "decl list" where
  "imported = filter (\<lambda>d. \<not> sym_body d) translation_unit"

definition exported_symbols :: "string list" where
  "exported_symbols = map sym_name exported"

definition imported_symbols :: "string list" where
  "imported_symbols = map sym_name imported"

subsection \<open>Execution\<close>

text \<open>
  A handle is the value of the \<^verbatim>\<open>void*\<close> parameter: a machine word of the platform's
  pointer width \<open>'w\<close>. The null pointer is the word 0.
\<close>

definition NULL :: "'w::len word" where
  "NULL = 0"

text \<open>
  The two constructors are not defined in the file; the linker supplies them. They are a
  parameter of the model: each takes the handle and the memory (of any type \<open>'m\<close>) and
  gives the memory it leaves behind, or \<open>None\<close> when the call does not come back
  (a fault, or no termination). The field names are the source's identifiers without the
  leading underscore.
\<close>

record ('h, 'm) externs =
  ZN12ImFontConfigC1Ev :: "'h \<Rightarrow> 'm \<Rightarrow> 'm option"
  ZN10ImGuiStyleC1Ev :: "'h \<Rightarrow> 'm \<Rightarrow> 'm option"

text \<open>An external call as it is issued: the symbol called and the argument passed.\<close>

datatype 'h event = Call (symbol: string) (arg: 'h)

text \<open>
  The run of a function body: the external calls it issued, oldest first, and the memory
  at its return (\<open>None\<close>: control did not come back).
\<close>

type_synonym ('h, 'm) run = "'h event list \<times> 'm option"

text \<open>
  The statement \<^verbatim>\<open>callee(a);\<close> for an external function \<open>callee\<close> whose behaviour
  is \<open>f\<close>.
\<close>

definition extern_call ::
  "string \<Rightarrow> ('h \<Rightarrow> 'm \<Rightarrow> 'm option) \<Rightarrow> 'h \<Rightarrow> 'm \<Rightarrow> ('h, 'm) run" where
  "extern_call callee f a m = ([Call callee a], f a m)"

text \<open>Lines 14 to 16.\<close>

definition ImFontConfig_ImFontConfig ::
  "('w::len word, 'm) externs \<Rightarrow> 'w word \<Rightarrow> 'm \<Rightarrow> ('w word, 'm) run" where
  "ImFontConfig_ImFontConfig ext self m =
     extern_call ''_ZN12ImFontConfigC1Ev'' (ZN12ImFontConfigC1Ev ext) self m"

text \<open>Lines 18 to 20.\<close>

definition ImGuiStyle_ImGuiStyle ::
  "('w::len word, 'm) externs \<Rightarrow> 'w word \<Rightarrow> 'm \<Rightarrow> ('w word, 'm) run" where
  "ImGuiStyle_ImGuiStyle ext self m =
     extern_call ''_ZN10ImGuiStyleC1Ev'' (ZN10ImGuiStyleC1Ev ext) self m"

subsection \<open>Callers\<close>

text \<open>
  A caller reaches the file through one of its two entry points. A straight-line sequence
  of such calls runs them in order on the memory each one leaves, and stops at the first
  one that does not come back.
\<close>

datatype entry_point = FontConfig | Style

fun call_entry ::
  "('w::len word, 'm) externs \<Rightarrow> entry_point \<times> 'w word \<Rightarrow> 'm \<Rightarrow> ('w word, 'm) run" where
  "call_entry ext (FontConfig, h) m = ImFontConfig_ImFontConfig ext h m"
| "call_entry ext (Style, h) m = ImGuiStyle_ImGuiStyle ext h m"

fun run_calls ::
  "('w::len word, 'm) externs \<Rightarrow> (entry_point \<times> 'w word) list \<Rightarrow> 'm \<Rightarrow> ('w word, 'm) run" where
  "run_calls ext [] m = ([], Some m)"
| "run_calls ext (c # cs) m =
     (case call_entry ext c m of
        (t, None) \<Rightarrow> (t, None)
      | (t, Some m') \<Rightarrow> (case run_calls ext cs m' of (t', r) \<Rightarrow> (t @ t', r)))"

section \<open>Properties\<close>

text \<open>
  A sequence of calls that came back, followed by one more call: the last call runs on the
  memory the sequence left, and its events follow those of the sequence.
\<close>

lemma run_calls_snoc:
  "run_calls ext cs m0 = (t, Some m) \<Longrightarrow>
   run_calls ext (cs @ [c]) m0 = (t @ fst (call_entry ext c m), snd (call_entry ext c m))"
proof (induction cs arbitrary: m0 t)
  case Nil
  then show ?case by (simp split: prod.splits option.splits)
next
  case (Cons d ds)
  obtain u r where d: "call_entry ext d m0 = (u, r)" by (cases "call_entry ext d m0")
  show ?case
  proof (cases r)
    case None
    with Cons.prems d show ?thesis by simp
  next
    case (Some m1)
    obtain u' r' where ds: "run_calls ext ds m1 = (u', r')" by (cases "run_calls ext ds m1")
    from Cons.prems d Some ds have t: "t = u @ u'" and r': "r' = Some m" by simp_all
    from Cons.IH [of m1 u'] ds r'
    have "run_calls ext (ds @ [c]) m1 =
            (u' @ fst (call_entry ext c m), snd (call_entry ext c m))" by simp
    with d Some t show ?thesis by simp
  qed
qed

text \<open>
  The memory after a sequence of calls is the memory threaded through the calls one by
  one; once a call has not come back, nothing after it runs.
\<close>

lemma foldl_bind_None:
  "foldl (\<lambda>r c. Option.bind r (k c)) None cs = None"
  by (induction cs) simp_all

lemma run_calls_memory:
  "snd (run_calls ext cs m0) =
     foldl (\<lambda>r c. Option.bind r (\<lambda>m. snd (call_entry ext c m))) (Some m0) cs"
proof (induction cs arbitrary: m0)
  case Nil
  show ?case by simp
next
  case (Cons c cs)
  obtain u r where c: "call_entry ext c m0 = (u, r)" by (cases "call_entry ext c m0")
  show ?case
  proof (cases r)
    case None
    with c show ?thesis by (simp add: foldl_bind_None)
  next
    case (Some m1)
    with c Cons.IH [of m1] show ?thesis by (auto split: prod.splits)
  qed
qed

text \<open>One call through an entry point, with the body of the entry point unfolded.\<close>

lemma call_entry_unfold:
  "call_entry ext (e, h) m =
     ([Call (case e of FontConfig \<Rightarrow> ''_ZN12ImFontConfigC1Ev''
                     | Style \<Rightarrow> ''_ZN10ImGuiStyleC1Ev'') h],
      (case e of FontConfig \<Rightarrow> ZN12ImFontConfigC1Ev ext
               | Style \<Rightarrow> ZN10ImGuiStyleC1Ev ext) h m)"
  by (cases e) (simp_all add: ImFontConfig_ImFontConfig_def ImGuiStyle_ImGuiStyle_def
      extern_call_def)

subsection \<open>Delegation\<close>

text \<open>
  Claim C1. For every handle \<open>h\<close>, the memory after the style forwarder is the memory after
  the constructor \<^verbatim>\<open>_ZN10ImGuiStyleC1Ev\<close> called directly on \<open>h\<close>, from every starting
  memory, and the same holds for the font-config forwarder and
  \<^verbatim>\<open>_ZN12ImFontConfigC1Ev\<close>: as transformers of the memory, forwarder and constructor
  are the same function, so the forwarder changes nothing the constructor did not.
\<close>

theorem forwarders_refine_constructors:
  "(\<lambda>m. snd (ImGuiStyle_ImGuiStyle ext h m)) = ZN10ImGuiStyleC1Ev ext h \<and>
   (\<lambda>m. snd (ImFontConfig_ImFontConfig ext h m)) = ZN12ImFontConfigC1Ev ext h"
  by (simp add: ImGuiStyle_ImGuiStyle_def ImFontConfig_ImFontConfig_def extern_call_def)

text \<open>
  Claim C2. Each entry point passes its argument on untransformed to its own constructor:
  the one external call it issues is a call of the corresponding constructor symbol with
  exactly the handle \<open>h\<close> the caller supplied, and the memory at return is what that
  constructor does at \<open>h\<close>, whatever \<open>h\<close>, the constructors and the memory are. In
  particular a constructor that records the argument it receives has recorded \<open>h\<close>.
\<close>

theorem forwarders_pass_handle_unchanged:
  "fst (ImFontConfig_ImFontConfig ext h m) = [Call ''_ZN12ImFontConfigC1Ev'' h] \<and>
   fst (ImGuiStyle_ImGuiStyle ext h m) = [Call ''_ZN10ImGuiStyleC1Ev'' h] \<and>
   snd (ImFontConfig_ImFontConfig ext h m) = ZN12ImFontConfigC1Ev ext h m \<and>
   snd (ImGuiStyle_ImGuiStyle ext h m) = ZN10ImGuiStyleC1Ev ext h m \<and>
   map arg (fst (ImFontConfig_ImFontConfig ext h m)) = [h] \<and>
   map arg (fst (ImGuiStyle_ImGuiStyle ext h m)) = [h] \<and>
   snd (ImFontConfig_ImFontConfig
          \<lparr>ZN12ImFontConfigC1Ev = (\<lambda>a seen. Some (a # seen)),
           ZN10ImGuiStyleC1Ev = (\<lambda>a seen. None)\<rparr> h received) = Some (h # received) \<and>
   snd (ImGuiStyle_ImGuiStyle
          \<lparr>ZN12ImFontConfigC1Ev = (\<lambda>a seen. None),
           ZN10ImGuiStyleC1Ev = (\<lambda>a seen. Some (a # seen))\<rparr> h received) = Some (h # received)"
  by (simp add: ImGuiStyle_ImGuiStyle_def ImFontConfig_ImFontConfig_def extern_call_def)

subsection \<open>Exported symbols\<close>

text \<open>
  Claim C3, as amended. The symbols the file exports are \<^verbatim>\<open>ImFontConfig_ImFontConfig\<close>
  and \<^verbatim>\<open>ImGuiStyle_ImGuiStyle\<close>, in this order and no others; each takes one
  \<^verbatim>\<open>void*\<close> argument and returns \<^verbatim>\<open>void\<close>.
\<close>

theorem exported_entry_points:
  "map (\<lambda>d. (sym_name d, sym_params d, sym_returns d)) exported =
     [(''ImFontConfig_ImFontConfig'', [Pointer Void], Void),
      (''ImGuiStyle_ImGuiStyle'', [Pointer Void], Void)]"
  by (simp add: exported_def translation_unit_def)

text \<open>
  Claim C3, as stated, fails: the file exports no symbol named
  \<^verbatim>\<open>initialize_font_config\<close> and none named \<^verbatim>\<open>initialize_style\<close>.
\<close>

theorem spec_names_not_exported:
  "\<not> (''initialize_font_config'' \<in> set exported_symbols \<and>
      ''initialize_style'' \<in> set exported_symbols)"
  by (simp add: exported_symbols_def exported_def translation_unit_def)

subsection \<open>Effects\<close>

text \<open>
  Claim C4. The whole run of either entry point is one external call and nothing else: the
  list of calls issued has the single entry for the delegated constructor (any logging or
  allocation would be a further call), and the memory at return is the memory that one
  constructor call leaves, so the body adds no effect of its own.
\<close>

theorem forwarders_single_delegated_call:
  "ImFontConfig_ImFontConfig ext h m =
     ([Call ''_ZN12ImFontConfigC1Ev'' h], ZN12ImFontConfigC1Ev ext h m) \<and>
   ImGuiStyle_ImGuiStyle ext h m =
     ([Call ''_ZN10ImGuiStyleC1Ev'' h], ZN10ImGuiStyleC1Ev ext h m) \<and>
   length (fst (ImFontConfig_ImFontConfig ext h m)) = 1 \<and>
   length (fst (ImGuiStyle_ImGuiStyle ext h m)) = 1"
  by (simp add: ImGuiStyle_ImGuiStyle_def ImFontConfig_ImFontConfig_def extern_call_def)

text \<open>
  Claim C5. Neither entry point validates its handle or has an outcome of its own: for
  every handle, the null handle included, the call issued is the same delegated call and
  the result is exactly the result of the delegated constructor, so a call fails to come
  back exactly when the constructor fails to come back.
\<close>

theorem forwarders_add_no_failure:
  "snd (ImFontConfig_ImFontConfig ext h m) = ZN12ImFontConfigC1Ev ext h m \<and>
   snd (ImGuiStyle_ImGuiStyle ext h m) = ZN10ImGuiStyleC1Ev ext h m \<and>
   fst (ImFontConfig_ImFontConfig ext h m) = [Call ''_ZN12ImFontConfigC1Ev'' h] \<and>
   fst (ImGuiStyle_ImGuiStyle ext h m) = [Call ''_ZN10ImGuiStyleC1Ev'' h] \<and>
   (snd (ImFontConfig_ImFontConfig ext h m) = None) = (ZN12ImFontConfigC1Ev ext h m = None) \<and>
   (snd (ImGuiStyle_ImGuiStyle ext h m) = None) = (ZN10ImGuiStyleC1Ev ext h m = None) \<and>
   snd (ImFontConfig_ImFontConfig ext NULL m) = ZN12ImFontConfigC1Ev ext NULL m \<and>
   snd (ImGuiStyle_ImGuiStyle ext NULL m) = ZN10ImGuiStyleC1Ev ext NULL m"
  by (simp add: ImGuiStyle_ImGuiStyle_def ImFontConfig_ImFontConfig_def extern_call_def)

subsection \<open>Control flow\<close>

text \<open>
  Claim C6. Every call takes the one path caller, entry point, constructor, return: the
  calls issued are the same single call for every input, and when the constructor returns
  with memory \<open>mf\<close> (or \<open>ms\<close>) the entry point returns too, with that memory.
\<close>

theorem forwarders_return_when_constructor_returns:
  "fst (ImFontConfig_ImFontConfig ext h m) = [Call ''_ZN12ImFontConfigC1Ev'' h] \<and>
   fst (ImGuiStyle_ImGuiStyle ext h m) = [Call ''_ZN10ImGuiStyleC1Ev'' h] \<and>
   (ZN12ImFontConfigC1Ev ext h m = Some mf \<longrightarrow>
      ImFontConfig_ImFontConfig ext h m = ([Call ''_ZN12ImFontConfigC1Ev'' h], Some mf)) \<and>
   (ZN10ImGuiStyleC1Ev ext h m = Some ms \<longrightarrow>
      ImGuiStyle_ImGuiStyle ext h m = ([Call ''_ZN10ImGuiStyleC1Ev'' h], Some ms))"
  by (simp add: ImGuiStyle_ImGuiStyle_def ImFontConfig_ImFontConfig_def extern_call_def)

theorem forwarders_return_when_constructor_returns_witness:
  "ZN12ImFontConfigC1Ev
      \<lparr>ZN12ImFontConfigC1Ev = (\<lambda>h m. Some (m(h := 1))),
       ZN10ImGuiStyleC1Ev = (\<lambda>h m. Some (m(h := 2)))\<rparr>
      (8 :: 64 word) (\<lambda>a. 0 :: nat) = Some ((\<lambda>a. 0)(8 := 1)) \<and>
   ZN10ImGuiStyleC1Ev
      \<lparr>ZN12ImFontConfigC1Ev = (\<lambda>h m. Some (m(h := 1))),
       ZN10ImGuiStyleC1Ev = (\<lambda>h m. Some (m(h := 2)))\<rparr>
      (8 :: 64 word) (\<lambda>a. 0 :: nat) = Some ((\<lambda>a. 0)(8 := 2)) \<and>
   ImFontConfig_ImFontConfig
      \<lparr>ZN12ImFontConfigC1Ev = (\<lambda>h m. Some (m(h := 1))),
       ZN10ImGuiStyleC1Ev = (\<lambda>h m. Some (m(h := 2)))\<rparr>
      (8 :: 64 word) (\<lambda>a. 0 :: nat)
     = ([Call ''_ZN12ImFontConfigC1Ev'' 8], Some ((\<lambda>a. 0)(8 := 1))) \<and>
   ImGuiStyle_ImGuiStyle
      \<lparr>ZN12ImFontConfigC1Ev = (\<lambda>h m. Some (m(h := 1))),
       ZN10ImGuiStyleC1Ev = (\<lambda>h m. Some (m(h := 2)))\<rparr>
      (8 :: 64 word) (\<lambda>a. 0 :: nat)
     = ([Call ''_ZN10ImGuiStyleC1Ev'' 8], Some ((\<lambda>a. 0)(8 := 2)))"
  using forwarders_return_when_constructor_returns
    [where ext = "\<lparr>ZN12ImFontConfigC1Ev = (\<lambda>h m. Some (m(h := 1))),
       ZN10ImGuiStyleC1Ev = (\<lambda>h m. Some (m(h := 2)))\<rparr>"
       and h = "8 :: 64 word" and m = "\<lambda>a. 0 :: nat"
       and mf = "(\<lambda>a. 0)(8 := 1)" and ms = "(\<lambda>a. 0)(8 := 2)"]
  by simp

subsection \<open>Statelessness\<close>

text \<open>
  Claim C7. The file keeps no state of its own. After any history \<open>cs\<close> of calls that
  came back with memory \<open>m\<close>, one more call through entry point \<open>e\<close> with handle
  \<open>h\<close> issues the call of the constructor of \<open>e\<close> with \<open>h\<close> and leaves what that
  constructor, a fixed function of its argument, makes of \<open>m\<close>: the history enters only
  through the memory the constructors themselves left. Accordingly the memory after a
  whole sequence of calls is the constructors' effects composed in order, with nothing
  contributed by the entry points.
\<close>

theorem call_effect_fixed_by_entry_and_handle:
  "(run_calls ext cs m0 = (t, Some m) \<longrightarrow>
      run_calls ext (cs @ [(e, h)]) m0 =
        (t @ [Call (case e of FontConfig \<Rightarrow> ''_ZN12ImFontConfigC1Ev''
                            | Style \<Rightarrow> ''_ZN10ImGuiStyleC1Ev'') h],
         (case e of FontConfig \<Rightarrow> ZN12ImFontConfigC1Ev ext
                  | Style \<Rightarrow> ZN10ImGuiStyleC1Ev ext) h m)) \<and>
   snd (run_calls ext cs m0) =
     foldl (\<lambda>r (e, h). Option.bind r
              ((case e of FontConfig \<Rightarrow> ZN12ImFontConfigC1Ev ext
                        | Style \<Rightarrow> ZN10ImGuiStyleC1Ev ext) h))
       (Some m0) cs"
proof (intro conjI impI)
  assume "run_calls ext cs m0 = (t, Some m)"
  from run_calls_snoc [OF this, of "(e, h)"]
  show "run_calls ext (cs @ [(e, h)]) m0 =
        (t @ [Call (case e of FontConfig \<Rightarrow> ''_ZN12ImFontConfigC1Ev''
                            | Style \<Rightarrow> ''_ZN10ImGuiStyleC1Ev'') h],
         (case e of FontConfig \<Rightarrow> ZN12ImFontConfigC1Ev ext
                  | Style \<Rightarrow> ZN10ImGuiStyleC1Ev ext) h m)"
    by (simp add: call_entry_unfold)
next
  have "(\<lambda>r c. Option.bind r (\<lambda>m. snd (call_entry ext c m))) =
        (\<lambda>r (e, h). Option.bind r
                    ((case e of FontConfig \<Rightarrow> ZN12ImFontConfigC1Ev ext
                              | Style \<Rightarrow> ZN10ImGuiStyleC1Ev ext) h))"
    by (intro ext) (simp add: call_entry_unfold split: prod.splits)
  with run_calls_memory [of ext cs m0]
  show "snd (run_calls ext cs m0) =
           foldl (\<lambda>r (e, h). Option.bind r
                    ((case e of FontConfig \<Rightarrow> ZN12ImFontConfigC1Ev ext
                              | Style \<Rightarrow> ZN10ImGuiStyleC1Ev ext) h))
             (Some m0) cs"
    by simp
qed

text \<open>
  At constructors that count in the cell of the handle (1 for the font configuration, 10
  for the style): after a style call and a font-config call on handle 8, a second
  font-config call on 8 adds 1 again.
\<close>

theorem call_effect_fixed_by_entry_and_handle_witness:
  "run_calls
      \<lparr>ZN12ImFontConfigC1Ev = (\<lambda>h m. Some (m(h := m h + 1))),
       ZN10ImGuiStyleC1Ev = (\<lambda>h m. Some (m(h := m h + 10)))\<rparr>
      [(Style, 8 :: 64 word), (FontConfig, 8)] (\<lambda>a. 0 :: nat)
     = ([Call ''_ZN10ImGuiStyleC1Ev'' 8, Call ''_ZN12ImFontConfigC1Ev'' 8],
        Some ((\<lambda>a. 0)(8 := 11))) \<and>
   run_calls
      \<lparr>ZN12ImFontConfigC1Ev = (\<lambda>h m. Some (m(h := m h + 1))),
       ZN10ImGuiStyleC1Ev = (\<lambda>h m. Some (m(h := m h + 10)))\<rparr>
      ([(Style, 8 :: 64 word), (FontConfig, 8)] @ [(FontConfig, 8)]) (\<lambda>a. 0 :: nat)
     = ([Call ''_ZN10ImGuiStyleC1Ev'' 8, Call ''_ZN12ImFontConfigC1Ev'' 8,
         Call ''_ZN12ImFontConfigC1Ev'' 8],
        Some ((\<lambda>a. 0)(8 := 12)))"
proof -
  let ?ext = "\<lparr>ZN12ImFontConfigC1Ev =
                  (\<lambda>(h :: 64 word) (m :: 64 word \<Rightarrow> nat). Some (m(h := m h + 1))),
               ZN10ImGuiStyleC1Ev = (\<lambda>h m. Some (m(h := m h + 10)))\<rparr>"
  have h1: "run_calls ?ext [(Style, 8), (FontConfig, 8)] (\<lambda>a. 0)
            = ([Call ''_ZN10ImGuiStyleC1Ev'' 8, Call ''_ZN12ImFontConfigC1Ev'' 8],
               Some ((\<lambda>a. 0)(8 := 11)))"
    by (simp add: ImFontConfig_ImFontConfig_def ImGuiStyle_ImGuiStyle_def extern_call_def)
  from call_effect_fixed_by_entry_and_handle
    [where ext = ?ext and cs = "[(Style, 8), (FontConfig, 8)]" and ?m0.0 = "\<lambda>a. 0"
       and t = "[Call ''_ZN10ImGuiStyleC1Ev'' 8, Call ''_ZN12ImFontConfigC1Ev'' 8]"
       and m = "(\<lambda>a. 0)(8 := 11)" and e = FontConfig and h = 8] h1
  show ?thesis by simp
qed

subsection \<open>Opaque handles\<close>

text \<open>
  Claim C9. The bodies treat the handle as an opaque value. The null handle goes to the
  constructor as it is; a call on the null handle that does not come back is a constructor
  call that did not come back; and renaming the handles by any function \<open>f\<close> on the
  constructors' side is the same as renaming the argument, which a body that compared or
  dereferenced the handle would not satisfy.
\<close>

theorem forwarders_do_not_inspect_handle:
  "fst (ImFontConfig_ImFontConfig ext NULL m) = [Call ''_ZN12ImFontConfigC1Ev'' NULL] \<and>
   fst (ImGuiStyle_ImGuiStyle ext NULL m) = [Call ''_ZN10ImGuiStyleC1Ev'' NULL] \<and>
   (snd (ImFontConfig_ImFontConfig ext NULL m) = None \<longrightarrow>
      ZN12ImFontConfigC1Ev ext NULL m = None) \<and>
   (snd (ImGuiStyle_ImGuiStyle ext NULL m) = None \<longrightarrow>
      ZN10ImGuiStyleC1Ev ext NULL m = None) \<and>
   map (map_event f)
     (fst (ImFontConfig_ImFontConfig
        \<lparr>ZN12ImFontConfigC1Ev = ZN12ImFontConfigC1Ev ext \<circ> f,
         ZN10ImGuiStyleC1Ev = ZN10ImGuiStyleC1Ev ext \<circ> f\<rparr> h m))
     = fst (ImFontConfig_ImFontConfig ext (f h) m) \<and>
   snd (ImFontConfig_ImFontConfig
        \<lparr>ZN12ImFontConfigC1Ev = ZN12ImFontConfigC1Ev ext \<circ> f,
         ZN10ImGuiStyleC1Ev = ZN10ImGuiStyleC1Ev ext \<circ> f\<rparr> h m)
     = snd (ImFontConfig_ImFontConfig ext (f h) m) \<and>
   map (map_event f)
     (fst (ImGuiStyle_ImGuiStyle
        \<lparr>ZN12ImFontConfigC1Ev = ZN12ImFontConfigC1Ev ext \<circ> f,
         ZN10ImGuiStyleC1Ev = ZN10ImGuiStyleC1Ev ext \<circ> f\<rparr> h m))
     = fst (ImGuiStyle_ImGuiStyle ext (f h) m) \<and>
   snd (ImGuiStyle_ImGuiStyle
        \<lparr>ZN12ImFontConfigC1Ev = ZN12ImFontConfigC1Ev ext \<circ> f,
         ZN10ImGuiStyleC1Ev = ZN10ImGuiStyleC1Ev ext \<circ> f\<rparr> h m)
     = snd (ImGuiStyle_ImGuiStyle ext (f h) m)"
  by (simp add: ImGuiStyle_ImGuiStyle_def ImFontConfig_ImFontConfig_def extern_call_def)

theorem forwarders_do_not_inspect_handle_witness:
  "snd (ImFontConfig_ImFontConfig
      \<lparr>ZN12ImFontConfigC1Ev = (\<lambda>h m. if h = 0 then None else Some (m(h := 1))),
       ZN10ImGuiStyleC1Ev = (\<lambda>h m. if h = 0 then None else Some (m(h := 2)))\<rparr>
      (NULL :: 64 word) (\<lambda>a. 0 :: nat)) = None \<and>
   snd (ImGuiStyle_ImGuiStyle
      \<lparr>ZN12ImFontConfigC1Ev = (\<lambda>h m. if h = 0 then None else Some (m(h := 1))),
       ZN10ImGuiStyleC1Ev = (\<lambda>h m. if h = 0 then None else Some (m(h := 2)))\<rparr>
      (NULL :: 64 word) (\<lambda>a. 0 :: nat)) = None \<and>
   ZN12ImFontConfigC1Ev
      \<lparr>ZN12ImFontConfigC1Ev = (\<lambda>h m. if h = 0 then None else Some (m(h := 1))),
       ZN10ImGuiStyleC1Ev = (\<lambda>h m. if h = 0 then None else Some (m(h := 2)))\<rparr>
      (NULL :: 64 word) (\<lambda>a. 0 :: nat) = None \<and>
   ZN10ImGuiStyleC1Ev
      \<lparr>ZN12ImFontConfigC1Ev = (\<lambda>h m. if h = 0 then None else Some (m(h := 1))),
       ZN10ImGuiStyleC1Ev = (\<lambda>h m. if h = 0 then None else Some (m(h := 2)))\<rparr>
      (NULL :: 64 word) (\<lambda>a. 0 :: nat) = None"
  using forwarders_do_not_inspect_handle
    [where ext = "\<lparr>ZN12ImFontConfigC1Ev = (\<lambda>h m. if h = 0 then None else Some (m(h := 1))),
       ZN10ImGuiStyleC1Ev = (\<lambda>h m. if h = 0 then None else Some (m(h := 2)))\<rparr>"
       and m = "\<lambda>a. 0 :: nat" and f = id and h = "NULL :: 64 word"]
  by (simp add: ImGuiStyle_ImGuiStyle_def ImFontConfig_ImFontConfig_def extern_call_def
      NULL_def)

subsection \<open>Pairing\<close>

text \<open>
  Claim C10. The font-config entry point invokes \<^verbatim>\<open>_ZN12ImFontConfigC1Ev\<close> and
  never the style constructor, and the style entry point invokes
  \<^verbatim>\<open>_ZN10ImGuiStyleC1Ev\<close> and never the font-config constructor: with any function
  \<open>k\<close> linked as an entry point's own constructor and any function \<open>g\<close> as the other
  one, the run is the call of the own symbol and the result of \<open>k\<close>, with no trace of
  \<open>g\<close>. These two are the only symbols the file needs from the linker.
\<close>

theorem forwarders_paired:
  "ImFontConfig_ImFontConfig \<lparr>ZN12ImFontConfigC1Ev = k, ZN10ImGuiStyleC1Ev = g\<rparr> h m
     = ([Call ''_ZN12ImFontConfigC1Ev'' h], k h m) \<and>
   ImGuiStyle_ImGuiStyle \<lparr>ZN12ImFontConfigC1Ev = g, ZN10ImGuiStyleC1Ev = k\<rparr> h m
     = ([Call ''_ZN10ImGuiStyleC1Ev'' h], k h m) \<and>
   ImFontConfig_ImFontConfig ext h m
     = ([Call ''_ZN12ImFontConfigC1Ev'' h], ZN12ImFontConfigC1Ev ext h m) \<and>
   ImGuiStyle_ImGuiStyle ext h m
     = ([Call ''_ZN10ImGuiStyleC1Ev'' h], ZN10ImGuiStyleC1Ev ext h m) \<and>
   map symbol (fst (ImFontConfig_ImFontConfig ext h m)) = [''_ZN12ImFontConfigC1Ev''] \<and>
   map symbol (fst (ImGuiStyle_ImGuiStyle ext h m)) = [''_ZN10ImGuiStyleC1Ev''] \<and>
   ImFontConfig_ImFontConfig (ext\<lparr>ZN10ImGuiStyleC1Ev := g\<rparr>) h m
     = ImFontConfig_ImFontConfig ext h m \<and>
   ImGuiStyle_ImGuiStyle (ext\<lparr>ZN12ImFontConfigC1Ev := g\<rparr>) h m
     = ImGuiStyle_ImGuiStyle ext h m \<and>
   imported_symbols = [''_ZN12ImFontConfigC1Ev'', ''_ZN10ImGuiStyleC1Ev'']"
  by (simp add: ImGuiStyle_ImGuiStyle_def ImFontConfig_ImFontConfig_def extern_call_def
      imported_symbols_def imported_def translation_unit_def)

end
